theory Spec2Isabelle
  imports Complex_Main
begin

section \<open>Conventions of the embedding\<close>

text \<open>
  A Python \<open>int\<close> is an \<open>int\<close>, \<open>None\<close> is the \<open>None\<close> of an \<open>option\<close>, and a float is
  the \<open>real\<close> it denotes. Every exception the modelled statements can raise is a value of
  \<open>py_error\<close>, returned as \<open>Inl\<close>.

  The arithmetic of \<open>BusThread.step\<close> is read exactly. The haversine functions are
  different: whether they return, and whether they return exactly 0, depends on how the
  platform rounds. They take the float arithmetic and the functions of the math module as
  a parameter, a record \<open>fmath\<close>, about which nothing is assumed; what is proved for every
  \<open>fmath\<close> holds of IEEE doubles. \<open>exact_math\<close> is the instance without rounding, used at
  concrete inputs. Infinities and NaN are not reals: the coordinates are finite numbers.

  The random module is modelled by passing the drawn entropy in: a call of
  \<open>random.random()\<close> is a real argument \<open>u\<close>, \<open>random.uniform(a, b)\<close> is
  \<open>a + (b - a) * u\<close> (its definition in CPython), and \<open>random.randint(lo, hi)\<close> maps a
  raw natural number into \<open>lo..hi\<close> and raises \<open>ValueError\<close> on an empty range, as
  CPython does. A statement for every value of these arguments is a statement for every seed.
\<close>

datatype py_error = IndexError | ValueError | ZeroDivisionError | TypeError

definition randint :: "int \<Rightarrow> int \<Rightarrow> nat \<Rightarrow> py_error + int" where
  "randint lo hi raw =
     (if hi < lo then Inl ValueError else Inr (lo + int raw mod (hi - lo + 1)))"

definition uniform :: "real \<Rightarrow> real \<Rightarrow> real \<Rightarrow> real" where
  "uniform lo hi u = lo + (hi - lo) * u"

section \<open>moving_sim.py: the bus simulator\<close>

subsection \<open>State of a BusThread\<close>

record segment =
  seg_a :: "real \<times> real"
  seg_b :: "real \<times> real"
  dist_km :: real

record bus =
  bus_id :: string
  route_name :: string
  waypoints :: "(real \<times> real) list"
  current_segment :: nat
  frac :: real
  occupancy :: int
  speed_kmph :: real
  segments :: "segment list"

text \<open>The entropy one call of \<open>step\<close> may consume, in the order of the source: the
  alighting coin and amount (lines 141-142), the boarding coin and amount (lines 149-150).\<close>

record draws =
  alight_u :: real
  alight_raw :: nat
  board_u :: real
  board_raw :: nat

definition SIMULATION_JITTER :: real where
  "SIMULATION_JITTER = 3 / 1000000"

definition interp :: "real \<Rightarrow> real \<Rightarrow> real \<Rightarrow> real" where
  "interp a b fr = a + (b - a) * fr"

subsection \<open>Helpers of the math module\<close>

text \<open>The float operations that the haversine functions use: \<open>+\<close>, \<open>-\<close>, \<open>*\<close>, \<open>/\<close>,
  \<open>**\<close> with an integer exponent, and \<open>math.sin\<close>, \<open>math.cos\<close>, \<open>math.sqrt\<close> (on an
  argument that is not negative), \<open>math.atan2\<close>, \<open>math.radians\<close>.\<close>

record fmath =
  fl_add :: "real \<Rightarrow> real \<Rightarrow> real"
  fl_sub :: "real \<Rightarrow> real \<Rightarrow> real"
  fl_mul :: "real \<Rightarrow> real \<Rightarrow> real"
  fl_div :: "real \<Rightarrow> real \<Rightarrow> real"
  fl_pow :: "real \<Rightarrow> nat \<Rightarrow> real"
  fl_sin :: "real \<Rightarrow> real"
  fl_cos :: "real \<Rightarrow> real"
  fl_sqrt :: "real \<Rightarrow> real"
  fl_atan2 :: "real \<Rightarrow> real \<Rightarrow> real"
  fl_radians :: "real \<Rightarrow> real"

text \<open>\<open>math.sqrt\<close> raises ValueError ("math domain error") on a negative argument.\<close>

definition py_sqrt :: "fmath \<Rightarrow> real \<Rightarrow> py_error + real" where
  "py_sqrt fl x = (if x < 0 then Inl ValueError else Inr (fl_sqrt fl x))"

text \<open>The exact functions: \<open>radians\<close>, and \<open>atan2\<close>, the angle of the point \<open>(x, y)\<close> in
  \<open>(-pi, pi]\<close> with \<open>atan2(0, 0) = 0\<close>.\<close>

definition radians :: "real \<Rightarrow> real" where
  "radians x = x * pi / 180"

definition atan2 :: "real \<Rightarrow> real \<Rightarrow> real" where
  "atan2 y x =
     (if 0 < x then arctan (y / x)
      else if x < 0 then (if 0 \<le> y then arctan (y / x) + pi else arctan (y / x) - pi)
      else if 0 < y then pi / 2
      else if y < 0 then - (pi / 2)
      else 0)"

definition exact_math :: fmath where
  "exact_math = \<lparr>fl_add = (\<lambda>x y. x + y), fl_sub = (\<lambda>x y. x - y), fl_mul = (\<lambda>x y. x * y),
     fl_div = (\<lambda>x y. x / y), fl_pow = (\<lambda>x n. x ^ n), fl_sin = sin, fl_cos = cos,
     fl_sqrt = sqrt, fl_atan2 = atan2, fl_radians = radians\<rparr>"

subsection \<open>haversine_km (moving_sim.py, lines 83-89)\<close>

text \<open>The operations are applied in the order in which Python evaluates the expression:
  \<open>**\<close> before \<open>*\<close>, and the product from the left.\<close>

definition haversine_km ::
  "fmath \<Rightarrow> real \<Rightarrow> real \<Rightarrow> real \<Rightarrow> real \<Rightarrow> py_error + real" where
  "haversine_km fl a_lat a_lon b_lat b_lon =
     (let R = 6371;
          dlat = fl_radians fl (fl_sub fl b_lat a_lat);
          dlon = fl_radians fl (fl_sub fl b_lon a_lon);
          a = fl_add fl
                (fl_pow fl (fl_sin fl (fl_div fl dlat 2)) 2)
                (fl_mul fl
                   (fl_mul fl (fl_cos fl (fl_radians fl a_lat)) (fl_cos fl (fl_radians fl b_lat)))
                   (fl_pow fl (fl_sin fl (fl_div fl dlon 2)) 2))
      in case py_sqrt fl a of
           Inl e \<Rightarrow> Inl e
         | Inr s1 \<Rightarrow>
             (case py_sqrt fl (fl_sub fl 1 a) of
                Inl e \<Rightarrow> Inl e
              | Inr s2 \<Rightarrow> Inr (fl_mul fl R (fl_mul fl 2 (fl_atan2 fl s1 s2)))))"

subsection \<open>BusThread.__init__ (lines 96-117)\<close>

text \<open>The loop of lines 110-114 over consecutive waypoints; it runs zero times on a list
  of fewer than two waypoints, and an exception of \<open>haversine_km\<close> ends it.\<close>

fun build_segments :: "fmath \<Rightarrow> (real \<times> real) list \<Rightarrow> py_error + segment list" where
  "build_segments fl (a # b # rest) =
     (case haversine_km fl (fst a) (snd a) (fst b) (snd b) of
        Inl e \<Rightarrow> Inl e
      | Inr d_km \<Rightarrow>
          (case build_segments fl (b # rest) of
             Inl e \<Rightarrow> Inl e
           | Inr segs \<Rightarrow> Inr (\<lparr>seg_a = a, seg_b = b, dist_km = d_km\<rparr> # segs)))"
| "build_segments fl _ = Inr []"

text \<open>The constructor. \<open>occ_raw\<close> and \<open>speed_u\<close> are the entropy of
  \<open>random.randint(8, 35)\<close> and \<open>random.uniform(22, 28)\<close>. On an empty segment list line 117
  reads \<open>self.waypoints[0]\<close>, which raises IndexError when there is no waypoint.\<close>

definition init_bus ::
  "fmath \<Rightarrow> string \<Rightarrow> string \<Rightarrow> (real \<times> real) list \<Rightarrow> nat \<Rightarrow> real \<Rightarrow> py_error + bus"
  where
  "init_bus fl bid rname stops occ_raw speed_u =
     (case randint 8 35 occ_raw of
        Inl e \<Rightarrow> Inl e
      | Inr occ \<Rightarrow>
          (case build_segments fl stops of
             Inl e \<Rightarrow> Inl e
           | Inr segs \<Rightarrow>
               (case (if segs = [] then
                        (case stops of
                           [] \<Rightarrow> Inl IndexError
                         | w # _ \<Rightarrow> Inr [\<lparr>seg_a = w, seg_b = w, dist_km = 1 / 10\<rparr>])
                      else Inr segs) of
                  Inl e \<Rightarrow> Inl e
                | Inr segs' \<Rightarrow>
                    Inr \<lparr>bus_id = bid, route_name = rname, waypoints = stops,
                         current_segment = 0, frac = 0, occupancy = occ,
                         speed_kmph = uniform 22 28 speed_u, segments = segs'\<rparr>)))"

subsection \<open>BusThread.step\<close>

text \<open>Lines 141-143: with the coin below 0.3, up to three passengers alight.\<close>

definition step_alight :: "int \<Rightarrow> draws \<Rightarrow> py_error + int" where
  "step_alight occ r =
     (if alight_u r < 3 / 10 then
        (case randint 0 (min 3 occ) (alight_raw r) of
           Inl e \<Rightarrow> Inl e
         | Inr alighting_passengers \<Rightarrow> Inr (max 0 (occ - alighting_passengers)))
      else Inr occ)"

text \<open>Lines 149-151: with the coin below 0.2, up to two passengers board.\<close>

definition step_board :: "int \<Rightarrow> draws \<Rightarrow> py_error + int" where
  "step_board occ r =
     (if board_u r < 2 / 10 then
        (case randint 0 (min 2 (50 - occ)) (board_raw r) of
           Inl e \<Rightarrow> Inl e
         | Inr boarding_passengers \<Rightarrow> Inr (min 50 (occ + boarding_passengers)))
      else Inr occ)"

text \<open>Lines 130-138: the fraction after the advance. The segment has been read already.\<close>

definition step_frac :: "bus \<Rightarrow> segment \<Rightarrow> real \<Rightarrow> real" where
  "step_frac b seg dt_sec =
     (if dist_km seg \<le> 0 then 1
      else frac b + (speed_kmph b / 3600 * dt_sec) / max (1 / 1000000) (dist_km seg))"

text \<open>Lines 128-155. Reading \<open>self.segments[self.current_segment]\<close> raises IndexError out
  of range (the index is never negative), and \<open>% len(self.segments)\<close> raises
  ZeroDivisionError on an empty list.\<close>

definition step :: "bus \<Rightarrow> real \<Rightarrow> draws \<Rightarrow> py_error + bus" where
  "step b dt_sec r =
     (if length (segments b) \<le> current_segment b then Inl IndexError
      else
        let fr = step_frac b (segments b ! current_segment b) dt_sec in
        if 1 \<le> fr then
          (case step_alight (occupancy b) r of
             Inl e \<Rightarrow> Inl e
           | Inr occ1 \<Rightarrow>
               if length (segments b) = 0 then Inl ZeroDivisionError
               else
                 (case step_board occ1 r of
                    Inl e \<Rightarrow> Inl e
                  | Inr occ2 \<Rightarrow>
                      Inr (b\<lparr>current_segment := (current_segment b + 1) mod length (segments b),
                              frac := 0,
                              occupancy := (if 50 < occ2 then 50 else occ2)\<rparr>)))
        else Inr (b\<lparr>frac := fr\<rparr>))"

text \<open>Lines 119-126: the interpolated position with fresh jitter; \<open>u_lat\<close> and \<open>u_lon\<close> are
  the two \<open>random.uniform\<close> draws.\<close>

definition get_current_latlon :: "bus \<Rightarrow> real \<Rightarrow> real \<Rightarrow> py_error + (real \<times> real)" where
  "get_current_latlon b u_lat u_lon =
     (if length (segments b) \<le> current_segment b then Inl IndexError
      else
        let seg = segments b ! current_segment b;
            lat = interp (fst (seg_a seg)) (fst (seg_b seg)) (frac b);
            lon = interp (snd (seg_a seg)) (snd (seg_b seg)) (frac b)
        in Inr (lat + uniform (- SIMULATION_JITTER) SIMULATION_JITTER u_lat,
                lon + uniform (- SIMULATION_JITTER) SIMULATION_JITTER u_lon))"

text \<open>A sequence of \<open>step\<close> calls, as the loop of \<open>run\<close> issues them (lines 170-175); the
  first exception ends the run.\<close>

fun steps :: "bus \<Rightarrow> (real \<times> draws) list \<Rightarrow> py_error + bus" where
  "steps b [] = Inr b"
| "steps b ((dt_sec, r) # rest) =
     (case step b dt_sec r of Inl e \<Rightarrow> Inl e | Inr b' \<Rightarrow> steps b' rest)"

section \<open>main.py: the store and the queries\<close>

subsection \<open>The buses table and bus_to_dict (lines 25-33, 97-105)\<close>

text \<open>A row of the table \<open>buses\<close>; every column but \<open>bus_id\<close> is nullable. The store is
  the list of rows, in the order in which a query returns them.\<close>

record bus_row =
  row_bus_id :: string
  latitude :: "real option"
  longitude :: "real option"
  row_occupancy :: "int option"
  route :: "string option"
  last_update :: "int option"

text \<open>The dictionary of \<open>bus_to_dict\<close> has the columns as keys; \<open>float\<close> and \<open>int\<close> are
  applied to values that are floats and ints already.\<close>

definition bus_to_dict :: "bus_row \<Rightarrow> bus_row" where
  "bus_to_dict bus =
     \<lparr>row_bus_id = row_bus_id bus,
      latitude = (case latitude bus of None \<Rightarrow> None | Some x \<Rightarrow> Some x),
      longitude = (case longitude bus of None \<Rightarrow> None | Some x \<Rightarrow> Some x),
      row_occupancy = (case row_occupancy bus of None \<Rightarrow> None | Some n \<Rightarrow> Some n),
      route = route bus,
      last_update = (case last_update bus of None \<Rightarrow> None | Some n \<Rightarrow> Some n)\<rparr>"

subsection \<open>get_all_buses (lines 159-187)\<close>

text \<open>A \<open>filter\<close> of the query keeps a row when its SQL condition is true; a comparison
  with a NULL column is NULL, and the row is dropped.\<close>

definition sql_ge :: "real option \<Rightarrow> real \<Rightarrow> bool" where
  "sql_ge col v = (case col of None \<Rightarrow> False | Some x \<Rightarrow> v \<le> x)"

definition sql_le :: "real option \<Rightarrow> real \<Rightarrow> bool" where
  "sql_le col v = (case col of None \<Rightarrow> False | Some x \<Rightarrow> x \<le> v)"

text \<open>The list that the endpoint returns (\<open>as_map\<close> false; with \<open>as_map\<close> the same
  dictionaries are keyed by their \<open>bus_id\<close>).\<close>

definition get_all_buses ::
  "bus_row list \<Rightarrow> real option \<Rightarrow> real option \<Rightarrow> real option \<Rightarrow> real option \<Rightarrow> bus_row list"
  where
  "get_all_buses db min_lat max_lat min_lon max_lon =
     (let q0 = db;
          q1 = (case min_lat of None \<Rightarrow> q0 | Some v \<Rightarrow> filter (\<lambda>b. sql_ge (latitude b) v) q0);
          q2 = (case max_lat of None \<Rightarrow> q1 | Some v \<Rightarrow> filter (\<lambda>b. sql_le (latitude b) v) q1);
          q3 = (case min_lon of None \<Rightarrow> q2 | Some v \<Rightarrow> filter (\<lambda>b. sql_ge (longitude b) v) q2);
          q4 = (case max_lon of None \<Rightarrow> q3 | Some v \<Rightarrow> filter (\<lambda>b. sql_le (longitude b) v) q3)
      in map bus_to_dict q4)"

subsection \<open>haversine_m (lines 192-198)\<close>

definition haversine_m ::
  "fmath \<Rightarrow> real \<Rightarrow> real \<Rightarrow> real \<Rightarrow> real \<Rightarrow> py_error + real" where
  "haversine_m fl lat1 lon1 lat2 lon2 =
     (let R = 6371000;
          dlat = fl_radians fl (fl_sub fl lat2 lat1);
          dlon = fl_radians fl (fl_sub fl lon2 lon1);
          a = fl_add fl
                (fl_pow fl (fl_sin fl (fl_div fl dlat 2)) 2)
                (fl_mul fl
                   (fl_mul fl (fl_cos fl (fl_radians fl lat1)) (fl_cos fl (fl_radians fl lat2)))
                   (fl_pow fl (fl_sin fl (fl_div fl dlon 2)) 2))
      in case py_sqrt fl a of
           Inl e \<Rightarrow> Inl e
         | Inr s1 \<Rightarrow>
             (case py_sqrt fl (fl_sub fl 1 a) of
                Inl e \<Rightarrow> Inl e
              | Inr s2 \<Rightarrow> Inr (fl_mul fl R (fl_mul fl 2 (fl_atan2 fl s1 s2)))))"

subsection \<open>nearest (lines 335-351)\<close>

record stop =
  stop_name :: string
  stop_lat :: real
  stop_lon :: real

record stop_hit =
  hit_stop :: stop
  stop_dist_m :: int

record bus_hit =
  hit_bus_id :: string
  hit_lat :: real
  hit_lon :: real
  hit_occupancy :: "int option"
  bus_dist_m :: int

definition MASTER_STOPS :: "stop list" where
  "MASTER_STOPS =
     [\<lparr>stop_name = ''Amritsar Railway Station'', stop_lat = 31.6340, stop_lon = 74.8737\<rparr>,
      \<lparr>stop_name = ''Golden Temple'', stop_lat = 31.6200, stop_lon = 74.8765\<rparr>,
      \<lparr>stop_name = ''Jalandhar Bus Stand'', stop_lat = 31.3256, stop_lon = 75.5792\<rparr>,
      \<lparr>stop_name = ''Ludhiana Railway Station'', stop_lat = 30.9010, stop_lon = 75.8573\<rparr>,
      \<lparr>stop_name = ''Patiala Bus Stand'', stop_lat = 30.3398, stop_lon = 76.3869\<rparr>,
      \<lparr>stop_name = ''Bathinda Railway Station'', stop_lat = 30.2110, stop_lon = 74.9455\<rparr>,
      \<lparr>stop_name = ''Chandigarh Bus Stand'', stop_lat = 30.7333, stop_lon = 76.7794\<rparr>,
      \<lparr>stop_name = ''Mohali Bus Stand'', stop_lat = 30.7041, stop_lon = 76.7177\<rparr>,
      \<lparr>stop_name = ''Ferozepur Railway Station'', stop_lat = 30.9153, stop_lon = 74.6100\<rparr>,
      \<lparr>stop_name = ''Gurdaspur Bus Stand'', stop_lat = 32.0417, stop_lon = 75.4017\<rparr>,
      \<lparr>stop_name = ''Pathankot Railway Station'', stop_lat = 32.2748, stop_lon = 75.6522\<rparr>,
      \<lparr>stop_name = ''Batala Bus Stand'', stop_lat = 31.8186, stop_lon = 75.2028\<rparr>,
      \<lparr>stop_name = ''Mansa Bus Stand'', stop_lat = 29.9881, stop_lon = 75.4017\<rparr>,
      \<lparr>stop_name = ''Barnala Bus Stand'', stop_lat = 30.3745, stop_lon = 75.5486\<rparr>,
      \<lparr>stop_name = ''Sangrur Railway Station'', stop_lat = 30.2450, stop_lon = 75.8447\<rparr>,
      \<lparr>stop_name = ''Abohar Bus Stand'', stop_lat = 30.1445, stop_lon = 74.1995\<rparr>,
      \<lparr>stop_name = ''Fazilka Bus Stand'', stop_lat = 30.4017, stop_lon = 74.0283\<rparr>,
      \<lparr>stop_name = ''Muktsar Railway Station'', stop_lat = 30.4745, stop_lon = 74.5169\<rparr>,
      \<lparr>stop_name = ''Dera Baba Nanak'', stop_lat = 32.0333, stop_lon = 75.0333\<rparr>,
      \<lparr>stop_name = ''Punjab University'', stop_lat = 30.7589, stop_lon = 76.7681\<rparr>,
      \<lparr>stop_name = ''Kharar Bus Stand'', stop_lat = 30.7456, stop_lon = 76.6544\<rparr>]"

text \<open>\<open>int(d)\<close> of a float truncates towards zero; \<open>xs[:n]\<close> keeps the first \<open>n\<close>
  elements, and for a negative \<open>n\<close> all but the last \<open>-n\<close>.\<close>

definition py_int :: "real \<Rightarrow> int" where
  "py_int x = (if 0 \<le> x then \<lfloor>x\<rfloor> else \<lceil>x\<rceil>)"

definition slice_to :: "'a list \<Rightarrow> int \<Rightarrow> 'a list" where
  "slice_to xs n =
     (if 0 \<le> n then take (nat n) xs else take (nat (int (length xs) + n)) xs)"

text \<open>The loop of lines 339-341 over the stop table; an exception of \<open>haversine_m\<close>
  ends it.\<close>

fun stop_hits :: "fmath \<Rightarrow> real \<Rightarrow> real \<Rightarrow> stop list \<Rightarrow> py_error + stop_hit list" where
  "stop_hits fl lat lon [] = Inr []"
| "stop_hits fl lat lon (s # rest) =
     (case haversine_m fl lat lon (stop_lat s) (stop_lon s) of
        Inl e \<Rightarrow> Inl e
      | Inr d \<Rightarrow>
          (case stop_hits fl lat lon rest of
             Inl e \<Rightarrow> Inl e
           | Inr hits \<Rightarrow> Inr (\<lparr>hit_stop = s, stop_dist_m = py_int d\<rparr> # hits)))"

text \<open>The loop of lines 347-349 over the rows of the query; arithmetic on a \<open>None\<close>
  coordinate would raise TypeError.\<close>

fun bus_hits :: "fmath \<Rightarrow> real \<Rightarrow> real \<Rightarrow> bus_row list \<Rightarrow> py_error + bus_hit list" where
  "bus_hits fl lat lon [] = Inr []"
| "bus_hits fl lat lon (b # rest) =
     (case (latitude b, longitude b) of
        (Some b_lat, Some b_lon) \<Rightarrow>
          (case haversine_m fl lat lon b_lat b_lon of
             Inl e \<Rightarrow> Inl e
           | Inr d \<Rightarrow>
               (case bus_hits fl lat lon rest of
                  Inl e \<Rightarrow> Inl e
                | Inr hits \<Rightarrow>
                    Inr (\<lparr>hit_bus_id = row_bus_id b, hit_lat = b_lat, hit_lon = b_lon,
                          hit_occupancy = row_occupancy b, bus_dist_m = py_int d\<rparr> # hits)))
      | _ \<Rightarrow> Inl TypeError)"

text \<open>\<open>nearest\<close> over a given stop table; \<open>list.sort\<close> is stable, as \<open>sort_key\<close> is. The
  result is the pair of \<open>nearest_stops\<close> and \<open>nearest_buses\<close>.\<close>

definition nearest_in ::
  "fmath \<Rightarrow> stop list \<Rightarrow> bus_row list \<Rightarrow> real \<Rightarrow> real \<Rightarrow> int
     \<Rightarrow> py_error + (stop_hit list \<times> bus_hit list)" where
  "nearest_in fl stop_table db lat lon max_results =
     (case stop_hits fl lat lon stop_table of
        Inl e \<Rightarrow> Inl e
      | Inr stops \<Rightarrow>
          (let buses = filter (\<lambda>b. latitude b \<noteq> None \<and> longitude b \<noteq> None) db in
           case bus_hits fl lat lon buses of
             Inl e \<Rightarrow> Inl e
           | Inr bus_list \<Rightarrow>
               Inr (slice_to (sort_key stop_dist_m stops) max_results,
                    slice_to (sort_key bus_dist_m bus_list) max_results)))"

definition nearest ::
  "fmath \<Rightarrow> bus_row list \<Rightarrow> real \<Rightarrow> real \<Rightarrow> int
     \<Rightarrow> py_error + (stop_hit list \<times> bus_hit list)" where
  "nearest fl db lat lon max_results = nearest_in fl MASTER_STOPS db lat lon max_results"

subsection \<open>_merge_bus (lines 412-445)\<close>

text \<open>An entry of \<open>BUS_CATALOG\<close>, and the enriched dictionary. \<open>_merge_bus\<close> is given the
  result of \<open>BUS_CATALOG.get(b.bus_id)\<close> (\<open>None\<close> for an id outside the catalogue), the value
  \<open>hash(b.bus_id)\<close> and the clock \<open>time.time()\<close>.\<close>

record catalog_entry =
  cat_number :: string
  cat_name :: string
  cat_stops :: "string list"
  cat_rating :: real
  cat_reserved_disabled :: int
  cat_ramp :: bool

record enriched =
  e_bus_id :: string
  e_latitude :: "real option"
  e_longitude :: "real option"
  e_occupancy :: "int option"
  e_route :: "string option"
  e_last_update :: "int option"
  e_number :: "string option"
  e_name :: "string option"
  e_stops :: "string list"
  e_rating :: "real option"
  e_reserved_disabled :: int
  e_ramp :: bool
  e_status :: string
  e_occupancy_label :: string

definition occupancy_label :: "int \<Rightarrow> string" where
  "occupancy_label occ =
     (if 80 \<le> occ then ''crowded'' else if 60 \<le> occ then ''moderate'' else ''available'')"

definition merge_bus :: "bus_row \<Rightarrow> catalog_entry option \<Rightarrow> int \<Rightarrow> real \<Rightarrow> enriched" where
  "merge_bus b meta h now =
     (let data = bus_to_dict b;
          spin = \<lfloor>now / 300\<rfloor>;
          pick = (\<bar>h\<bar> + spin) mod 3;
          occ = (case row_occupancy data of
                   None \<Rightarrow> 10 + (\<bar>h\<bar> + \<lfloor>now / 600\<rfloor> * 5) mod 50
                 | Some n \<Rightarrow> n)
      in \<lparr>e_bus_id = row_bus_id data, e_latitude = latitude data, e_longitude = longitude data,
          e_occupancy = Some occ, e_route = route data, e_last_update = last_update data,
          e_number = map_option cat_number meta, e_name = map_option cat_name meta,
          e_stops = (case meta of None \<Rightarrow> [] | Some m \<Rightarrow> cat_stops m),
          e_rating = map_option cat_rating meta,
          e_reserved_disabled = (case meta of None \<Rightarrow> 0 | Some m \<Rightarrow> cat_reserved_disabled m),
          e_ramp = (case meta of None \<Rightarrow> False | Some m \<Rightarrow> cat_ramp m),
          e_status = [''on-time'', ''delayed'', ''early''] ! nat pick,
          e_occupancy_label = occupancy_label occ\<rparr>)"

text \<open>The invariant of a constructed simulator: the segment index is inside the segment
  list and the occupancy is between 0 and the capacity 50.\<close>

definition bus_inv :: "bus \<Rightarrow> bool" where
  "bus_inv b \<longleftrightarrow>
     current_segment b < length (segments b) \<and> 0 \<le> occupancy b \<and> occupancy b \<le> 50"

text \<open>A concrete simulator for the examples: one segment of 0.1 km from a point to
  itself (the degenerate segment of the constructor), 36 km/h, ten passengers.\<close>

definition demo_bus :: bus where
  "demo_bus = \<lparr>bus_id = ''PTC101'', route_name = ''Demo'', waypoints = [(0, 0)],
     current_segment = 0, frac = 0, occupancy = 10, speed_kmph = 36,
     segments = [\<lparr>seg_a = (0, 0), seg_b = (0, 0), dist_km = 1 / 10\<rparr>]\<rparr>"

definition demo_draws :: draws where
  "demo_draws = \<lparr>alight_u = 1 / 10, alight_raw = 5, board_u = 1 / 10, board_raw = 4\<rparr>"

text \<open>A simulator on two segments, the first only 0.0000001 km long.\<close>

definition short_bus :: bus where
  "short_bus = \<lparr>bus_id = ''PTC102'', route_name = ''Short'', waypoints = [],
     current_segment = 0, frac = 0, occupancy = 10, speed_kmph = 36,
     segments = [\<lparr>seg_a = (0, 0), seg_b = (0, 0), dist_km = 1 / 10000000\<rparr>,
                 \<lparr>seg_a = (0, 0), seg_b = (0, 0), dist_km = 1\<rparr>]\<rparr>"

text \<open>A simulator at the start of a route of two segments, 0.1 km and 0.2 km, at 36 km/h.\<close>

definition route_bus :: bus where
  "route_bus = \<lparr>bus_id = ''PTC103'', route_name = ''Two'', waypoints = [],
     current_segment = 0, frac = 0, occupancy = 10, speed_kmph = 36,
     segments = [\<lparr>seg_a = (0, 0), seg_b = (0, 1), dist_km = 1 / 10\<rparr>,
                 \<lparr>seg_a = (0, 1), seg_b = (0, 2), dist_km = 2 / 10\<rparr>]\<rparr>"

text \<open>Rows for the examples: a bus on the equator at longitude 0, one at longitude 180,
  and one that has not reported a position.\<close>

definition row_origin :: bus_row where
  "row_origin = \<lparr>row_bus_id = ''PTC101'', latitude = Some 0, longitude = Some 0,
     row_occupancy = Some 45, route = None, last_update = None\<rparr>"

definition row_far :: bus_row where
  "row_far = \<lparr>row_bus_id = ''PTC102'', latitude = Some 0, longitude = Some 180,
     row_occupancy = Some 12, route = None, last_update = None\<rparr>"

definition row_nowhere :: bus_row where
  "row_nowhere = \<lparr>row_bus_id = ''PTC103'', latitude = None, longitude = None,
     row_occupancy = None, route = None, last_update = None\<rparr>"

text \<open>A stop table of two stops on the equator, the farther one first.\<close>

definition stops_two :: "stop list" where
  "stops_two = [\<lparr>stop_name = ''Far'', stop_lat = 0, stop_lon = 180\<rparr>,
                \<lparr>stop_name = ''Origin'', stop_lat = 0, stop_lon = 0\<rparr>]"

section \<open>Properties of step\<close>

lemma randint_range:
  "lo \<le> hi \<Longrightarrow> \<exists>k. randint lo hi raw = Inr k \<and> lo \<le> k \<and> k \<le> hi"
proof -
  assume h: "lo \<le> hi"
  from h have pos: "0 < hi - lo + 1" by simp
  have "0 \<le> int raw mod (hi - lo + 1)" "int raw mod (hi - lo + 1) < hi - lo + 1"
    using pos by (rule pos_mod_sign, rule pos_mod_bound)
  then have "lo \<le> lo + int raw mod (hi - lo + 1)" "lo + int raw mod (hi - lo + 1) \<le> hi"
    by linarith+
  then show ?thesis
    using h by (simp add: randint_def)
qed

lemma step_alight_ok:
  assumes "0 \<le> occ" "occ \<le> 50"
  shows "\<exists>occ1. step_alight occ r = Inr occ1 \<and> 0 \<le> occ1 \<and> occ1 \<le> 50"
proof (cases "alight_u r < 3 / 10")
  case True
  from assms have "(0::int) \<le> min 3 occ" by simp
  from randint_range [OF this] obtain k where
    k: "randint 0 (min 3 occ) (alight_raw r) = Inr k" "0 \<le> k" "k \<le> min 3 occ"
    by blast
  with True assms show ?thesis by (simp add: step_alight_def)
next
  case False
  with assms show ?thesis by (simp add: step_alight_def)
qed

lemma step_board_ok:
  assumes "0 \<le> occ" "occ \<le> 50"
  shows "\<exists>occ2. step_board occ r = Inr occ2 \<and> 0 \<le> occ2 \<and> occ2 \<le> 50"
proof (cases "board_u r < 2 / 10")
  case True
  from assms have "(0::int) \<le> min 2 (50 - occ)" by simp
  from randint_range [OF this] obtain k where
    k: "randint 0 (min 2 (50 - occ)) (board_raw r) = Inr k" "0 \<le> k" "k \<le> min 2 (50 - occ)"
    by blast
  with True assms show ?thesis by (simp add: step_board_def)
next
  case False
  with assms show ?thesis by (simp add: step_board_def)
qed


lemma step_preserves_inv:
  assumes "bus_inv b"
  shows "\<exists>b'. step b dt_sec r = Inr b' \<and> bus_inv b' \<and> segments b' = segments b"
proof -
  from assms have idx: "current_segment b < length (segments b)"
    and occ: "0 \<le> occupancy b" "occupancy b \<le> 50"
    by (simp_all add: bus_inv_def)
  from step_alight_ok [OF occ] obtain occ1 where
    o1: "step_alight (occupancy b) r = Inr occ1" "0 \<le> occ1" "occ1 \<le> 50" by blast
  from step_board_ok [OF o1(2,3)] obtain occ2 where
    o2: "step_board occ1 r = Inr occ2" "0 \<le> occ2" "occ2 \<le> 50" by blast
  from idx have ne: "segments b \<noteq> []" by auto
  show ?thesis
  proof (cases "1 \<le> step_frac b (segments b ! current_segment b) dt_sec")
    case True
    with idx ne o1 o2 show ?thesis
      by (simp add: step_def bus_inv_def Let_def)
  next
    case False
    with idx occ show ?thesis
      by (simp add: step_def bus_inv_def Let_def)
  qed
qed

lemma init_bus_inv: "init_bus fl bid rn ws k u = Inr b \<Longrightarrow> bus_inv b"
proof -
  assume h: "init_bus fl bid rn ws k u = Inr b"
  obtain occ where occ: "randint 8 35 k = Inr occ" "8 \<le> occ" "occ \<le> 35"
    using randint_range [of 8 35 k] by auto
  show ?thesis using h occ
    by (auto simp: init_bus_def bus_inv_def split: sum.splits if_splits list.splits)
qed

text \<open>
  Claim C7, as amended. For a waypoint list of exactly one waypoint the constructor succeeds
  (for every draw of the initial occupancy and speed, in every arithmetic: no distance is
  computed) and yields exactly one degenerate
  segment, from the waypoint to itself, of nominal length 0.1 km; the divisor that \<open>step\<close>
  uses on it, \<open>max(1e-6, dist_km)\<close>, is 0.1 and so not zero.
\<close>

theorem init_bus_single_waypoint:
  "\<exists>b. init_bus fl bid rn [w] k u = Inr b
       \<and> segments b = [\<lparr>seg_a = w, seg_b = w, dist_km = 1 / 10\<rparr>]
       \<and> current_segment b = 0
       \<and> max (1 / 1000000) (dist_km (segments b ! current_segment b)) = 1 / 10"
proof -
  obtain occ where occ: "randint 8 35 k = Inr occ"
    using randint_range [of 8 35 k] by auto
  then show ?thesis by (simp add: init_bus_def)
qed

text \<open>With no waypoint at all (also "fewer than 2") the constructor raises IndexError at
  \<open>self.waypoints[0]\<close>, so the claim as stated fails.\<close>

theorem init_bus_no_waypoint_raises:
  "init_bus exact_math ''PTC101'' ''Demo'' [] 0 0 = Inl IndexError"
  by (simp add: init_bus_def randint_def)

lemma steps_inv:
  "bus_inv b \<Longrightarrow> \<exists>b'. steps b ds = Inr b' \<and> bus_inv b'"
proof (induction ds arbitrary: b)
  case Nil
  then show ?case by simp
next
  case (Cons d ds)
  obtain dt r where d: "d = (dt, r)" by (cases d)
  from step_preserves_inv [OF Cons.prems] obtain b1 where
    b1: "step b dt r = Inr b1" "bus_inv b1" by blast
  from Cons.IH [OF b1(2)] obtain b2 where "steps b1 ds = Inr b2" "bus_inv b2" by blast
  with b1 d show ?case by simp
qed

lemma init_bus_occupancy:
  "init_bus fl bid rn ws k u = Inr b \<Longrightarrow> 8 \<le> occupancy b \<and> occupancy b \<le> 35"
proof -
  assume h: "init_bus fl bid rn ws k u = Inr b"
  obtain occ where occ: "randint 8 35 k = Inr occ" "8 \<le> occ" "occ \<le> 35"
    using randint_range [of 8 35 k] by auto
  show ?thesis using h occ
    by (auto simp: init_bus_def split: if_splits list.splits sum.splits)
qed

text \<open>
  Claim C8. For every simulator state that satisfies the invariant of a constructed
  simulator (segment index inside the segment list, occupancy in [0, 50]), every \<open>dt\<close> and
  every outcome of the random draws, \<open>step\<close> returns a state (which satisfies the invariant
  again) and \<open>get_current_latlon\<close> returns a position: neither raises.
\<close>

theorem step_and_position_never_raise:
  assumes "bus_inv b"
  shows "(\<exists>b'. step b dt_sec r = Inr b' \<and> bus_inv b')
         \<and> (\<exists>p. get_current_latlon b u_lat u_lon = Inr p)"
proof -
  from step_preserves_inv [OF assms] have "\<exists>b'. step b dt_sec r = Inr b' \<and> bus_inv b'"
    by blast
  moreover from assms have "current_segment b < length (segments b)"
    by (simp add: bus_inv_def)
  then have "\<exists>p. get_current_latlon b u_lat u_lon = Inr p"
    by (simp add: get_current_latlon_def Let_def)
  ultimately show ?thesis by blast
qed

theorem step_and_position_never_raise_witness:
  "bus_inv demo_bus
   \<and> (\<exists>b'. step demo_bus 20 demo_draws = Inr b' \<and> bus_inv b')
   \<and> (\<exists>p. get_current_latlon demo_bus 0 1 = Inr p)"
proof -
  have h: "bus_inv demo_bus" by (simp add: bus_inv_def demo_bus_def)
  from step_and_position_never_raise [OF h, of 20 demo_draws 0 1] h show ?thesis by blast
qed

text \<open>
  Claim C2. A constructed simulator (in every arithmetic) starts with an occupancy in
  [8, 35], and after every
  finite sequence of \<open>step\<close> calls, for every outcome of the random draws, all calls have
  returned and the occupancy is an integer in [0, 50]. The sequence is arbitrary, hence so
  is each of its prefixes: the bound holds after each call. It does not need \<open>dt \<ge> 0\<close>.
\<close>

theorem occupancy_always_in_range:
  assumes "init_bus fl bid rn ws k u = Inr b0"
  shows "8 \<le> occupancy b0 \<and> occupancy b0 \<le> 35
         \<and> (\<exists>b. steps b0 ds = Inr b \<and> 0 \<le> occupancy b \<and> occupancy b \<le> 50)"
proof -
  from steps_inv [OF init_bus_inv [OF assms]] obtain b where
    "steps b0 ds = Inr b" "bus_inv b" by blast
  then have "\<exists>b. steps b0 ds = Inr b \<and> 0 \<le> occupancy b \<and> occupancy b \<le> 50"
    by (auto simp: bus_inv_def)
  with init_bus_occupancy [OF assms] show ?thesis by blast
qed

theorem occupancy_always_in_range_witness:
  "init_bus exact_math ''PTC101'' ''Demo'' [(0, 0)] 2 (1 / 2)
     = Inr (demo_bus\<lparr>speed_kmph := 25\<rparr>)
   \<and> (\<exists>b. steps (demo_bus\<lparr>speed_kmph := 25\<rparr>) [(20, demo_draws), (5, demo_draws)] = Inr b
          \<and> 0 \<le> occupancy b \<and> occupancy b \<le> 50)"
proof -
  have h: "init_bus exact_math ''PTC101'' ''Demo'' [(0, 0)] 2 (1 / 2)
             = Inr (demo_bus\<lparr>speed_kmph := 25\<rparr>)"
    by (simp add: init_bus_def randint_def uniform_def demo_bus_def)
  from occupancy_always_in_range [OF h, of "[(20, demo_draws), (5, demo_draws)]"] h
  show ?thesis by blast
qed

lemma step_incomplete:
  assumes "bus_inv b" "0 < dist_km (segments b ! current_segment b)"
    and "frac b + (speed_kmph b / 3600 * dt) / max (1 / 1000000) (dist_km (segments b ! current_segment b)) < 1"
  shows "step b dt r = Inr (b\<lparr>frac := frac b + (speed_kmph b / 3600 * dt)
            / max (1 / 1000000) (dist_km (segments b ! current_segment b))\<rparr>)"
  using assms by (simp add: step_def step_frac_def Let_def bus_inv_def)

lemma step_complete:
  assumes "bus_inv b" "0 < dist_km (segments b ! current_segment b)"
    and "frac b + (speed_kmph b / 3600 * dt) / max (1 / 1000000) (dist_km (segments b ! current_segment b)) = 1"
  shows "\<exists>b'. step b dt r = Inr b' \<and> frac b' = 0
           \<and> current_segment b' = (current_segment b + 1) mod length (segments b)"
proof -
  from assms(1) have idx: "current_segment b < length (segments b)"
    and occ: "0 \<le> occupancy b" "occupancy b \<le> 50"
    by (simp_all add: bus_inv_def)
  from step_alight_ok [OF occ] obtain occ1 where
    o1: "step_alight (occupancy b) r = Inr occ1" "0 \<le> occ1" "occ1 \<le> 50" by blast
  from step_board_ok [OF o1(2,3)] obtain occ2 where
    o2: "step_board occ1 r = Inr occ2" by blast
  from idx have ne: "segments b \<noteq> []" by auto
  have "step_frac b (segments b ! current_segment b) dt = 1"
    using assms(2,3) by (simp add: step_frac_def)
  with idx ne o1 o2 show ?thesis
    by (simp add: step_def Let_def)
qed

lemma sum_list_fst_pos:
  fixes ds :: "(real \<times> 'a) list"
  assumes "ds \<noteq> []" "\<forall>d \<in> set ds. 0 < fst d"
  shows "0 < sum_list (map fst ds)"
  using assms
proof (induction ds rule: list_nonempty_induct)
  case (single d)
  then show ?case by simp
next
  case (cons d ds)
  then have "0 < fst d" "0 < sum_list (map fst ds)" by simp_all
  then show ?case by simp
qed

lemma steps_one_segment:
  assumes "ds \<noteq> []"
    and "bus_inv b"
    and "1 / 1000000 \<le> dist_km (segments b ! current_segment b)"
    and "0 < speed_kmph b"
    and "\<forall>d \<in> set ds. 0 < fst d"
    and "frac b + (speed_kmph b / 3600 * sum_list (map fst ds))
           / dist_km (segments b ! current_segment b) = 1"
  shows "\<exists>b'. steps b ds = Inr b' \<and> frac b' = 0
           \<and> current_segment b' = (current_segment b + 1) mod length (segments b)"
  using assms
proof (induction ds arbitrary: b rule: list_nonempty_induct)
  case (single d)
  obtain dt r where d: "d = (dt, r)" by (cases d)
  let ?L = "dist_km (segments b ! current_segment b)"
  from single have L: "0 < ?L" "max (1 / 1000000) ?L = ?L" by simp_all
  from single d have "frac b + (speed_kmph b / 3600 * dt) / max (1 / 1000000) ?L = 1"
    by (simp add: L)
  from step_complete [OF single(1) L(1) this, of r] d show ?case
    by auto
next
  case (cons d ds)
  obtain dt r where d: "d = (dt, r)" by (cases d)
  let ?L = "dist_km (segments b ! current_segment b)"
  let ?v = "speed_kmph b / 3600"
  from cons.prems have L: "0 < ?L" "max (1 / 1000000) ?L = ?L" by simp_all
  from cons.prems have v: "0 < ?v" by simp
  from cons.prems d have dt: "0 < dt" by simp
  from cons.prems have "\<forall>d \<in> set ds. 0 < fst d" by simp
  with cons.hyps have rest: "0 < sum_list (map fst ds)"
    by (rule sum_list_fst_pos)
  let ?f1 = "frac b + (?v * dt) / ?L"
  have split: "frac b + (?v * sum_list (map fst (d # ds))) / ?L
             = ?f1 + (?v * sum_list (map fst ds)) / ?L"
    using d by (simp add: algebra_simps add_divide_distrib)
  have "0 < (?v * sum_list (map fst ds)) / ?L"
    using v rest L(1) by simp
  with split cons.prems(5) have lt: "?f1 < 1" by linarith
  then have "frac b + (?v * dt) / max (1 / 1000000) ?L < 1" by (simp add: L)
  from step_incomplete [OF cons.prems(1) L(1) this, of r]
  have st: "step b dt r = Inr (b\<lparr>frac := ?f1\<rparr>)" by (simp add: L)
  let ?b1 = "b\<lparr>frac := ?f1\<rparr>"
  have inv1: "bus_inv ?b1" using cons.prems(1) by (simp add: bus_inv_def)
  have "\<exists>b'. steps ?b1 ds = Inr b' \<and> frac b' = 0
           \<and> current_segment b' = (current_segment ?b1 + 1) mod length (segments ?b1)"
  proof (rule cons.IH [OF inv1])
    show "1 / 1000000 \<le> dist_km (segments ?b1 ! current_segment ?b1)"
      using cons.prems(2) by simp
    show "0 < speed_kmph ?b1" using cons.prems(3) by simp
    show "\<forall>d\<in>set ds. 0 < fst d" using cons.prems(4) by simp
    show "frac ?b1 + speed_kmph ?b1 / 3600 * sum_list (map fst ds)
            / dist_km (segments ?b1 ! current_segment ?b1) = 1"
      using split cons.prems(5) by simp
  qed
  with st d show ?case by simp
qed

text \<open>
  Claim C10. A call of \<open>step\<close> with \<open>dt \<ge> 0\<close> that does not complete the current segment
  (the segment length is positive and the advanced fraction stays strictly below 1) changes
  only \<open>frac\<close>: the resulting state is the old one with the advanced fraction, so the
  occupancy, the segment index and every other field are unchanged.
\<close>

theorem step_frame_incomplete_segment:
  assumes "current_segment b < length (segments b)"
    and "0 \<le> dt_sec"
    and "0 < dist_km (segments b ! current_segment b)"
    and "frac b + (speed_kmph b / 3600 * dt_sec)
           / max (1 / 1000000) (dist_km (segments b ! current_segment b)) < 1"
  shows "step b dt_sec r =
           Inr (b\<lparr>frac := frac b + (speed_kmph b / 3600 * dt_sec)
                     / max (1 / 1000000) (dist_km (segments b ! current_segment b))\<rparr>)"
  using assms by (simp add: step_def step_frac_def Let_def)


theorem step_frame_incomplete_segment_witness:
  "current_segment demo_bus < length (segments demo_bus) \<and> (0::real) \<le> 5
   \<and> 0 < dist_km (segments demo_bus ! current_segment demo_bus)
   \<and> step demo_bus 5 demo_draws = Inr (demo_bus\<lparr>frac := 1 / 2\<rparr>)"
  using step_frame_incomplete_segment [of demo_bus 5 demo_draws]
  by (simp add: demo_bus_def)

text \<open>
  Claim C3, as amended (exact arithmetic). On a segment of length \<open>L \<ge> 0.000001\<close> km
  (the floor that \<open>step\<close> puts under its divisor), with a positive speed and starting at
  \<open>frac = 0\<close>, every finite sequence of positive \<open>dt\<close> values that sums to
  \<open>L / (v / 3600)\<close> seconds advances the simulator by exactly one segment, whatever the
  split and whatever the random draws: all calls return, \<open>frac\<close> ends at 0 and the segment
  index is the old one plus 1 modulo the number of segments.
\<close>

theorem traversal_time_advances_one_segment:
  assumes "bus_inv b"
    and "frac b = 0"
    and "1 / 1000000 \<le> dist_km (segments b ! current_segment b)"
    and "0 < speed_kmph b"
    and "\<forall>d \<in> set ds. 0 < fst d"
    and "sum_list (map fst ds)
           = dist_km (segments b ! current_segment b) / (speed_kmph b / 3600)"
  shows "\<exists>b'. steps b ds = Inr b' \<and> frac b' = 0
           \<and> current_segment b' = (current_segment b + 1) mod length (segments b)"
proof -
  let ?L = "dist_km (segments b ! current_segment b)"
  from assms(3) have L: "0 < ?L" by simp
  with assms(4) have "0 < ?L / (speed_kmph b / 3600)" by simp
  with assms(6) have ne: "ds \<noteq> []" by auto
  have "frac b + (speed_kmph b / 3600 * sum_list (map fst ds)) / ?L = 1"
    using assms(2,4,6) L by simp
  from steps_one_segment [OF ne assms(1,3,4,5) this] show ?thesis .
qed

theorem traversal_time_advances_one_segment_witness:
  "bus_inv route_bus \<and> frac route_bus = 0
   \<and> 1 / 1000000 \<le> dist_km (segments route_bus ! current_segment route_bus)
   \<and> 0 < speed_kmph route_bus
   \<and> (0::real) < fst (4, demo_draws) \<and> (0::real) < fst (6, demo_draws)
   \<and> sum_list (map fst [(4::real, demo_draws), (6, demo_draws)])
       = dist_km (segments route_bus ! current_segment route_bus) / (speed_kmph route_bus / 3600)
   \<and> (\<exists>b'. steps route_bus [(4, demo_draws), (6, demo_draws)] = Inr b' \<and> frac b' = 0
          \<and> current_segment b' = 1)"
proof -
  have h: "bus_inv route_bus" "frac route_bus = 0"
    "1 / 1000000 \<le> dist_km (segments route_bus ! current_segment route_bus)"
    "0 < speed_kmph route_bus"
    "\<forall>d \<in> set [(4, demo_draws), (6, demo_draws)]. (0::real) < fst d"
    "sum_list (map fst [(4::real, demo_draws), (6, demo_draws)])
       = dist_km (segments route_bus ! current_segment route_bus) / (speed_kmph route_bus / 3600)"
    by (simp_all add: bus_inv_def route_bus_def)
  have "(current_segment route_bus + 1) mod length (segments route_bus) = 1"
    by (simp add: route_bus_def)
  with traversal_time_advances_one_segment [OF h] h show ?thesis by simp
qed

text \<open>The claim as stated, for every length \<open>L > 0\<close>, fails below the floor: on a first
  segment of 0.0000001 km at 36 km/h the traversal time is 0.00001 s, and one \<open>step\<close> of that
  \<open>dt\<close> leaves the simulator on segment 0 at \<open>frac = 0.1\<close>.\<close>

theorem traversal_time_short_segment_counterexample:
  "0 < dist_km (segments short_bus ! current_segment short_bus)
   \<and> frac short_bus = 0
   \<and> sum_list (map fst [(1 / 100000 :: real, demo_draws)])
       = dist_km (segments short_bus ! current_segment short_bus) / (speed_kmph short_bus / 3600)
   \<and> steps short_bus [(1 / 100000, demo_draws)] = Inr (short_bus\<lparr>frac := 1 / 10\<rparr>)
   \<and> frac (short_bus\<lparr>frac := 1 / 10\<rparr>) \<noteq> 0
   \<and> current_segment (short_bus\<lparr>frac := 1 / 10\<rparr>)
       \<noteq> (current_segment short_bus + 1) mod length (segments short_bus)"
  by (simp add: short_bus_def step_def step_frac_def Let_def)

section \<open>Properties of the enriched view\<close>

text \<open>
  Claim C9. For a row with no reported occupancy, \<open>_merge_bus\<close> stores the occupancy
  \<open>10 + (|hash| + window * 5) mod 50\<close>, where \<open>window\<close> is the number of the current
  10-minute window: a function of the id hash and the window only (any other row, catalogue
  entry and clock value in the same window give the same value), and it lies in [10, 79].
\<close>

theorem synthesized_occupancy_deterministic_in_range:
  assumes "row_occupancy b = None"
  shows "\<exists>v. e_occupancy (merge_bus b meta h now) = Some v
           \<and> v = 10 + (\<bar>h\<bar> + \<lfloor>now / 600\<rfloor> * 5) mod 50
           \<and> 10 \<le> v \<and> v \<le> 79
           \<and> (\<forall>b' meta' now'. row_occupancy b' = None \<and> \<lfloor>now' / 600\<rfloor> = \<lfloor>now / 600\<rfloor>
                 \<longrightarrow> e_occupancy (merge_bus b' meta' h now') = Some v)"
proof -
  let ?v = "10 + (\<bar>h\<bar> + \<lfloor>now / 600\<rfloor> * 5) mod 50"
  have f: "row_occupancy b' = None
      \<Longrightarrow> e_occupancy (merge_bus b' meta' h now') = Some (10 + (\<bar>h\<bar> + \<lfloor>now' / 600\<rfloor> * 5) mod 50)"
    for b' meta' now'
    by (simp add: merge_bus_def bus_to_dict_def Let_def)
  have "0 \<le> (\<bar>h\<bar> + \<lfloor>now / 600\<rfloor> * 5) mod 50" "(\<bar>h\<bar> + \<lfloor>now / 600\<rfloor> * 5) mod 50 < 50"
    by simp_all
  then have "10 \<le> ?v" "?v \<le> 79" by linarith+
  with f [OF assms] f show ?thesis by auto
qed

theorem synthesized_occupancy_deterministic_in_range_witness:
  "row_occupancy row_nowhere = None
   \<and> e_occupancy (merge_bus row_nowhere None 7 1234) = Some 27"
proof -
  have h: "row_occupancy row_nowhere = None" by (simp add: row_nowhere_def)
  have "\<lfloor>1234 / 600 :: real\<rfloor> = 2" by (simp add: floor_eq_iff)
  with synthesized_occupancy_deterministic_in_range [OF h, of None 7 1234] h
  show ?thesis by auto
qed

text \<open>
  Claim C1: the code at the input of the claim. For a bus that reports occupancy 45,
  \<open>_merge_bus\<close> labels it "available": the label compares the passenger count itself with
  80 and 60, not with 80 and 60 per cent of the capacity 50.
\<close>

theorem occupancy_label_at_45:
  "e_occupancy_label (merge_bus (b\<lparr>row_occupancy := Some 45\<rparr>) meta h now) = ''available''
   \<and> occupancy_label 45 \<noteq> ''crowded''"
  by (simp add: merge_bus_def bus_to_dict_def occupancy_label_def Let_def)

section \<open>Properties of the queries\<close>

lemma bus_to_dict_id: "bus_to_dict b = b"
  by (cases b) (simp add: bus_to_dict_def split: option.splits)

lemma map_bus_to_dict: "map bus_to_dict xs = xs"
  by (induction xs) (simp_all add: bus_to_dict_id)

lemma get_all_buses_set:
  "set (get_all_buses db min_lat max_lat min_lon max_lon) =
     {b \<in> set db.
        (case min_lat of None \<Rightarrow> True | Some v \<Rightarrow> sql_ge (latitude b) v)
        \<and> (case max_lat of None \<Rightarrow> True | Some v \<Rightarrow> sql_le (latitude b) v)
        \<and> (case min_lon of None \<Rightarrow> True | Some v \<Rightarrow> sql_ge (longitude b) v)
        \<and> (case max_lon of None \<Rightarrow> True | Some v \<Rightarrow> sql_le (longitude b) v)}"
  by (auto simp: get_all_buses_def Let_def map_bus_to_dict split: option.splits)

text \<open>
  Claim C6, as amended. With all four bounds unset the filter returns every vehicle of the
  store, with or without coordinates, in the order of the store. A vehicle is returned
  exactly when each supplied bound holds of its coordinate, with \<open>\<le>\<close>: a bound equal to
  the vehicle's coordinate does not exclude it, so a vehicle with coordinates is returned
  when all four bounds are its own coordinates. A vehicle with no coordinates is excluded
  once any bound is supplied.
\<close>

theorem bounding_box_filter:
  "get_all_buses db None None None None = db
   \<and> (b \<in> set (get_all_buses db min_lat max_lat min_lon max_lon) \<longleftrightarrow>
        b \<in> set db
        \<and> (\<forall>v. min_lat = Some v \<longrightarrow> (\<exists>x. latitude b = Some x \<and> v \<le> x))
        \<and> (\<forall>v. max_lat = Some v \<longrightarrow> (\<exists>x. latitude b = Some x \<and> x \<le> v))
        \<and> (\<forall>v. min_lon = Some v \<longrightarrow> (\<exists>x. longitude b = Some x \<and> v \<le> x))
        \<and> (\<forall>v. max_lon = Some v \<longrightarrow> (\<exists>x. longitude b = Some x \<and> x \<le> v)))
   \<and> (b \<in> set db \<and> latitude b = Some la \<and> longitude b = Some lo
        \<longrightarrow> b \<in> set (get_all_buses db (Some la) (Some la) (Some lo) (Some lo))
            \<and> b \<in> set (get_all_buses db (Some la) None None None)
            \<and> b \<in> set (get_all_buses db None (Some la) None None)
            \<and> b \<in> set (get_all_buses db None None (Some lo) None)
            \<and> b \<in> set (get_all_buses db None None None (Some lo)))
   \<and> (latitude b = None \<and> longitude b = None
        \<and> (min_lat \<noteq> None \<or> max_lat \<noteq> None \<or> min_lon \<noteq> None \<or> max_lon \<noteq> None)
        \<longrightarrow> b \<notin> set (get_all_buses db min_lat max_lat min_lon max_lon))"
proof -
  have a: "get_all_buses db None None None None = db"
    by (simp add: get_all_buses_def map_bus_to_dict)
  have m: "b \<in> set (get_all_buses db mnla mxla mnlo mxlo) \<longleftrightarrow>
        b \<in> set db
        \<and> (\<forall>v. mnla = Some v \<longrightarrow> (\<exists>x. latitude b = Some x \<and> v \<le> x))
        \<and> (\<forall>v. mxla = Some v \<longrightarrow> (\<exists>x. latitude b = Some x \<and> x \<le> v))
        \<and> (\<forall>v. mnlo = Some v \<longrightarrow> (\<exists>x. longitude b = Some x \<and> v \<le> x))
        \<and> (\<forall>v. mxlo = Some v \<longrightarrow> (\<exists>x. longitude b = Some x \<and> x \<le> v))"
    for mnla mxla mnlo mxlo
    unfolding get_all_buses_set
    by (cases mnla; cases mxla; cases mnlo; cases mxlo)
       (auto simp: sql_ge_def sql_le_def split: option.splits)
  have c: "b \<in> set db \<and> latitude b = Some la \<and> longitude b = Some lo
        \<longrightarrow> b \<in> set (get_all_buses db (Some la) (Some la) (Some lo) (Some lo))
            \<and> b \<in> set (get_all_buses db (Some la) None None None)
            \<and> b \<in> set (get_all_buses db None (Some la) None None)
            \<and> b \<in> set (get_all_buses db None None (Some lo) None)
            \<and> b \<in> set (get_all_buses db None None None (Some lo))"
    by (simp add: m)
  have d: "latitude b = None \<and> longitude b = None
        \<and> (min_lat \<noteq> None \<or> max_lat \<noteq> None \<or> min_lon \<noteq> None \<or> max_lon \<noteq> None)
        \<longrightarrow> b \<notin> set (get_all_buses db min_lat max_lat min_lon max_lon)"
    by (auto simp: m)
  from a m [of min_lat max_lat min_lon max_lon] c d show ?thesis by blast
qed

theorem bounding_box_filter_witness:
  "get_all_buses [row_origin, row_far, row_nowhere] None None None None
     = [row_origin, row_far, row_nowhere]
   \<and> row_far \<in> set [row_origin, row_far, row_nowhere]
   \<and> latitude row_far = Some 0 \<and> longitude row_far = Some 180
   \<and> row_far \<in> set (get_all_buses [row_origin, row_far, row_nowhere] None None (Some 180) None)
   \<and> latitude row_nowhere = None \<and> longitude row_nowhere = None
   \<and> row_nowhere \<notin> set (get_all_buses [row_origin, row_far, row_nowhere] None None (Some 180) None)"
proof -
  have h: "row_far \<in> set [row_origin, row_far, row_nowhere]"
    "latitude row_far = Some 0" "longitude row_far = Some 180"
    "latitude row_nowhere = None" "longitude row_nowhere = None"
    by (simp_all add: row_far_def row_nowhere_def)
  from bounding_box_filter [of "[row_origin, row_far, row_nowhere]" row_far None None None None 0 180]
  have 1: "get_all_buses [row_origin, row_far, row_nowhere] None None None None
             = [row_origin, row_far, row_nowhere]"
    and 2: "row_far \<in> set (get_all_buses [row_origin, row_far, row_nowhere] None None (Some 180) None)"
    using h by blast+
  from bounding_box_filter [of "[row_origin, row_far, row_nowhere]" row_nowhere None None "Some 180" None 0 0]
  have 3: "row_nowhere \<notin> set (get_all_buses [row_origin, row_far, row_nowhere] None None (Some 180) None)"
    using h by blast
  from 1 2 3 h show ?thesis by blast
qed

text \<open>The claim as stated, "exactly the vehicles that have coordinates", fails: with no
  bound the vehicle without coordinates is returned too.\<close>

theorem bounding_box_unset_counterexample:
  "get_all_buses [row_origin, row_nowhere] None None None None = [row_origin, row_nowhere]
   \<and> latitude row_nowhere = None \<and> longitude row_nowhere = None"
  by (simp add: get_all_buses_def bus_to_dict_def row_origin_def row_nowhere_def)

lemma slice_to_sorted: "sorted (map f xs) \<Longrightarrow> sorted (map f (slice_to xs n))"
  by (simp add: slice_to_def take_map [symmetric])

lemma slice_to_set: "set (slice_to xs n) \<subseteq> set xs"
  by (auto simp: slice_to_def dest: in_set_takeD)

lemma slice_to_length: "0 \<le> n \<Longrightarrow> int (length (slice_to xs n)) \<le> n"
  by (simp add: slice_to_def)

lemma bus_hits_positioned:
  assumes "bus_hits fl lat lon rows = Inr hits"
  shows "\<forall>h \<in> set hits. \<exists>b \<in> set rows. row_bus_id b = hit_bus_id h
           \<and> latitude b = Some (hit_lat h) \<and> longitude b = Some (hit_lon h)"
  using assms
proof (induction rows arbitrary: hits)
  case Nil
  then show ?case by simp
next
  case (Cons b rows)
  from Cons.prems obtain la lo d rest where
    c: "latitude b = Some la" "longitude b = Some lo"
    and r: "bus_hits fl lat lon rows = Inr rest"
    and h: "hits = \<lparr>hit_bus_id = row_bus_id b, hit_lat = la, hit_lon = lo,
                    hit_occupancy = row_occupancy b, bus_dist_m = py_int d\<rparr> # rest"
    by (auto split: option.splits sum.splits)
  from Cons.IH [OF r] c h show ?case by auto
qed

text \<open>
  Claim C5, as amended. For every query point, stop table, fleet state and limit, in every
  arithmetic: whenever \<open>nearest\<close> returns, the nearest stops and the nearest vehicles are in
  ascending (non-decreasing) order of their distance in whole metres; for a limit \<open>\<ge> 0\<close>
  each list has at most that many entries; and every vehicle listed is a vehicle of the store
  with both coordinates known, the ones reported for it.
\<close>

theorem nearest_ascending_limited_positioned:
  assumes "nearest_in fl stop_table db lat lon max_results = Inr (stops, buses)"
  shows "nearest fl db lat lon max_results = nearest_in fl MASTER_STOPS db lat lon max_results
         \<and> sorted (map stop_dist_m stops) \<and> sorted (map bus_dist_m buses)
         \<and> (0 \<le> max_results \<longrightarrow>
               int (length stops) \<le> max_results \<and> int (length buses) \<le> max_results)
         \<and> (\<forall>h \<in> set buses. \<exists>b \<in> set db. row_bus_id b = hit_bus_id h
               \<and> latitude b = Some (hit_lat h) \<and> longitude b = Some (hit_lon h))"
proof -
  let ?rows = "filter (\<lambda>b. latitude b \<noteq> None \<and> longitude b \<noteq> None) db"
  from assms obtain ss bs where ss: "stop_hits fl lat lon stop_table = Inr ss"
    and bs: "bus_hits fl lat lon ?rows = Inr bs"
    and st: "stops = slice_to (sort_key stop_dist_m ss) max_results"
    and bu: "buses = slice_to (sort_key bus_dist_m bs) max_results"
    by (auto simp: nearest_in_def Let_def split: sum.splits)
  have s1: "sorted (map stop_dist_m stops)" unfolding st by (rule slice_to_sorted) simp
  have s2: "sorted (map bus_dist_m buses)" unfolding bu by (rule slice_to_sorted) simp
  have l: "0 \<le> max_results \<longrightarrow>
      int (length stops) \<le> max_results \<and> int (length buses) \<le> max_results"
    unfolding st bu by (simp add: slice_to_length)
  have "set buses \<subseteq> set bs"
    unfolding bu using slice_to_set [of "sort_key bus_dist_m bs" max_results] by simp
  with bus_hits_positioned [OF bs]
  have p: "\<forall>h \<in> set buses. \<exists>b \<in> set db. row_bus_id b = hit_bus_id h
        \<and> latitude b = Some (hit_lat h) \<and> longitude b = Some (hit_lon h)"
    by fastforce
  from s1 s2 l p show ?thesis by (simp add: nearest_def)
qed

lemma radians_values: "radians 0 = 0" "radians 180 = pi"
  by (simp_all add: radians_def)

lemma haversine_m_examples:
  "haversine_m exact_math 0 0 0 0 = Inr 0"
  "haversine_m exact_math 0 0 0 180 = Inr (6371000 * pi)"
  by (simp_all add: haversine_m_def exact_math_def py_sqrt_def radians_values atan2_def Let_def)

lemma far_metres: "0 < \<lfloor>6371000 * pi\<rfloor>" "py_int (6371000 * pi) = \<lfloor>6371000 * pi\<rfloor>"
proof -
  have "1 \<le> 6371000 * pi" using pi_ge_two by simp
  then show "0 < \<lfloor>6371000 * pi\<rfloor>" by (simp add: zero_less_floor)
  show "py_int (6371000 * pi) = \<lfloor>6371000 * pi\<rfloor>" by (simp add: py_int_def)
qed

lemma nearest_in_example:
  "nearest_in exact_math stops_two [row_far, row_nowhere, row_origin] 0 0 1
     = Inr ([\<lparr>hit_stop = \<lparr>stop_name = ''Origin'', stop_lat = 0, stop_lon = 0\<rparr>, stop_dist_m = 0\<rparr>],
            [\<lparr>hit_bus_id = ''PTC101'', hit_lat = 0, hit_lon = 0, hit_occupancy = Some 45,
              bus_dist_m = 0\<rparr>])"
  using far_metres(1)
  by (simp add: nearest_in_def stops_two_def row_far_def row_nowhere_def row_origin_def
      haversine_m_examples far_metres(2) py_int_def slice_to_def Let_def)

theorem nearest_ascending_limited_positioned_witness:
  "nearest_in exact_math stops_two [row_far, row_nowhere, row_origin] 0 0 1
     = Inr ([\<lparr>hit_stop = \<lparr>stop_name = ''Origin'', stop_lat = 0, stop_lon = 0\<rparr>, stop_dist_m = 0\<rparr>],
            [\<lparr>hit_bus_id = ''PTC101'', hit_lat = 0, hit_lon = 0, hit_occupancy = Some 45,
              bus_dist_m = 0\<rparr>])
   \<and> (0::int) \<le> 1
   \<and> sorted (map stop_dist_m
        [\<lparr>hit_stop = \<lparr>stop_name = ''Origin'', stop_lat = 0, stop_lon = 0\<rparr>, stop_dist_m = 0\<rparr>])
   \<and> int (length [\<lparr>hit_bus_id = ''PTC101'', hit_lat = 0, hit_lon = 0, hit_occupancy = Some 45,
                    bus_dist_m = 0\<rparr>]) \<le> 1
   \<and> latitude row_origin = Some 0 \<and> longitude row_origin = Some 0"
  using nearest_ascending_limited_positioned [OF nearest_in_example] nearest_in_example
  by (simp add: row_origin_def)

text \<open>The claim as stated fails twice. The lists are ascending, not non-increasing: the
  vehicle at distance 0 comes before the one at \<open>\<lfloor>6371000 * pi\<rfloor>\<close> metres (20015086, as
  the doubles give too). And a negative limit is not a bound on the length: with limit -1
  and two positioned vehicles the result has one vehicle.\<close>

theorem nearest_order_and_limit_counterexample:
  "nearest_in exact_math [] [row_far, row_nowhere, row_origin] 0 0 5
     = Inr ([],
            [\<lparr>hit_bus_id = ''PTC101'', hit_lat = 0, hit_lon = 0, hit_occupancy = Some 45,
              bus_dist_m = 0\<rparr>,
             \<lparr>hit_bus_id = ''PTC102'', hit_lat = 0, hit_lon = 180, hit_occupancy = Some 12,
              bus_dist_m = \<lfloor>6371000 * pi\<rfloor>\<rparr>])
   \<and> (0::int) < \<lfloor>6371000 * pi\<rfloor>
   \<and> nearest_in exact_math [] [row_far, row_nowhere, row_origin] 0 0 (- 1)
     = Inr ([],
            [\<lparr>hit_bus_id = ''PTC101'', hit_lat = 0, hit_lon = 0, hit_occupancy = Some 45,
              bus_dist_m = 0\<rparr>])"
  using far_metres(1)
  by (simp add: nearest_in_def row_far_def row_nowhere_def row_origin_def
      haversine_m_examples far_metres(2) py_int_def slice_to_def Let_def)

end
